theory Spec2Isabelle
  imports Main
begin

section \<open>Values, errors and the Python operations the program uses\<close>

text \<open>
  The program (\<^verbatim>\<open>streamlit_app.py\<close>) handles decoded JSON: \<^verbatim>\<open>None\<close>, booleans,
  integers, strings, lists and dictionaries. A dictionary is an association list in
  insertion order. JSON numbers with a fractional part are outside this model. A string
  is a list of characters; Python's \<^verbatim>\<open>str.lower\<close>, which belongs to the language and
  follows the Unicode case tables, is not fixed here: it is a parameter of the
  environment (\<open>str_lower\<close> below), and every general statement holds for whatever
  function it is.
\<close>

datatype json =
    JNull
  | JBool bool
  | JInt int
  | JStr string
  | JList "json list"
  | JObj "(string \<times> json) list"

datatype error =
    RuntimeError
  | RequestException
  | HTTPError nat
  | JSONDecodeError
  | AttributeError
  | TypeError
  | IndexError
  | KeyError

text \<open>Sequencing of fallible steps: the first exception ends the computation.\<close>

definition ebind :: "error + 'a \<Rightarrow> ('a \<Rightarrow> error + 'b) \<Rightarrow> error + 'b" where
  "ebind m f = (case m of Inl e \<Rightarrow> Inl e | Inr x \<Rightarrow> f x)"

text \<open>Python truthiness, as tested by \<^verbatim>\<open>if x\<close>, \<^verbatim>\<open>not x\<close> and \<^verbatim>\<open>x or y\<close>.\<close>

fun truthy :: "json \<Rightarrow> bool" where
  "truthy JNull = False"
| "truthy (JBool b) = b"
| "truthy (JInt i) = (i \<noteq> 0)"
| "truthy (JStr s) = (s \<noteq> [])"
| "truthy (JList xs) = (xs \<noteq> [])"
| "truthy (JObj kvs) = (kvs \<noteq> [])"

text \<open>\<^verbatim>\<open>x.get(k, d)\<close>: only a dictionary has the method.\<close>

fun py_get :: "json \<Rightarrow> string \<Rightarrow> json \<Rightarrow> error + json" where
  "py_get (JObj kvs) k d = Inr (case map_of kvs k of None \<Rightarrow> d | Some v \<Rightarrow> v)"
| "py_get _ k d = Inl AttributeError"

text \<open>
  \<^verbatim>\<open>x.lower()\<close>: only a string has the method; \<open>lower_fn\<close> is the lower-casing of
  strings that the environment provides.
\<close>

fun py_lower :: "(string \<Rightarrow> string) \<Rightarrow> json \<Rightarrow> error + string" where
  "py_lower lower_fn (JStr s) = Inr (lower_fn s)"
| "py_lower lower_fn _ = Inl AttributeError"

text \<open>
  What a \<^verbatim>\<open>for\<close> loop or a generator iterates over: the elements of a list, the keys
  of a dictionary, the characters of a string; anything else is not iterable.
\<close>

fun py_iter :: "json \<Rightarrow> error + json list" where
  "py_iter (JList xs) = Inr xs"
| "py_iter (JObj kvs) = Inr (map (\<lambda>kv. JStr (fst kv)) kvs)"
| "py_iter (JStr s) = Inr (map (\<lambda>c. JStr [c]) s)"
| "py_iter _ = Inl TypeError"

text \<open>\<^verbatim>\<open>x[0]\<close>.\<close>

fun py_index0 :: "json \<Rightarrow> error + json" where
  "py_index0 (JList []) = Inl IndexError"
| "py_index0 (JList (x # xs)) = Inr x"
| "py_index0 (JStr []) = Inl IndexError"
| "py_index0 (JStr (c # cs)) = Inr (JStr [c])"
| "py_index0 (JObj kvs) = Inl KeyError"
| "py_index0 _ = Inl TypeError"

text \<open>\<^verbatim>\<open>str(n)\<close> for an integer: decimal digits, with a minus sign when negative.\<close>

definition digit_char :: "nat \<Rightarrow> char" where
  "digit_char d = char_of (48 + d)"

fun str_nat :: "nat \<Rightarrow> string" where
  "str_nat n = (if n < 10 then [digit_char n] else str_nat (n div 10) @ [digit_char (n mod 10)])"

declare str_nat.simps [simp del]

definition str :: "int \<Rightarrow> string" where
  "str i = (if i < 0 then CHR ''-'' # str_nat (nat (- i)) else str_nat (nat i))"

text \<open>\<^verbatim>\<open>sep.join(xs)\<close>.\<close>

fun join :: "string \<Rightarrow> string list \<Rightarrow> string" where
  "join sep [] = []"
| "join sep [x] = x"
| "join sep (x # y # ys) = x @ sep @ join sep (y # ys)"

section \<open>The mood catalog\<close>

definition MOOD_MAP :: "(string \<times> string list) list" where
  "MOOD_MAP =
    [(''Feel-Good'', [''friendship'', ''family'', ''happy ending'', ''optimism'']),
     (''Heartbreaking'', [''tragedy'', ''death'', ''illness'', ''doomed romance'']),
     (''Melancholic'', [''nostalgia'', ''memory'', ''bittersweet'', ''loneliness'']),
     (''Wholesome'', [''kindness'', ''friendship'', ''animals'', ''found family'']),
     (''Cathartic'', [''redemption'', ''forgiveness'', ''trauma'', ''self discovery'']),
     (''Lost / Loneliness'', [''isolation'', ''loneliness'', ''solitude'']),
     (''Escapist'', [''fantasy world'', ''imagination'', ''parallel universe'', ''adventure'']),
     (''Hopeful'', [''inspiration'', ''overcoming obstacles'', ''resilience'']),
     (''Dark & Gritty'', [''neo-noir'', ''urban decay'', ''crime'', ''violence'']),
     (''Weirdcore / Surreal'', [''surrealism'', ''dream'', ''hallucination'', ''absurd'']),
     (''Trippy'', [''psychedelic'', ''drugs'', ''hallucination'', ''acid'']),
     (''Uplifting'', [''sports'', ''inspiration'', ''success'', ''mentor'']),
     (''Sentimental'', [''memory'', ''nostalgia'', ''family'', ''childhood'']),
     (''Poetic'', [''poetry'', ''dream'', ''visual metaphor'', ''art'']),
     (''Slow Burn'', [''psychological'', ''tension'', ''atmosphere'', ''slow burn'']),
     (''Cozy'', [''small town'', ''friendship'', ''community'', ''slice of life'']),
     (''Bittersweet Romance'', [''romance'', ''tragedy'', ''love affair'', ''forbidden love'']),
     (''Coming of Age'', [''coming of age'', ''teenager'', ''youth'', ''self discovery'']),
     (''Existential'', [''philosophy'', ''existentialism'', ''death'', ''meaning of life'']),
     (''Dreamlike'', [''dream'', ''fantasy'', ''surrealism'', ''vision'']),
     (''Eerie / Haunting'', [''ghost'', ''haunted house'', ''supernatural'', ''mystery'']),
     (''Nostalgic'', [''retro'', ''nostalgia'', ''childhood'', ''memory'']),
     (''Hope in Darkness'', [''war'', ''survival'', ''courage'', ''resistance'']),
     (''Liberating'', [''freedom'', ''rebellion'', ''escape'', ''self discovery'']),
     (''Chaotic Energy'', [''crime spree'', ''gang'', ''anarchy'', ''violence''])]"

text \<open>\<^verbatim>\<open>MOOD_MAP.get(mood, [])\<close>, the lookup of lines 85 and 170.\<close>

definition MOOD_MAP_get :: "string \<Rightarrow> string list" where
  "MOOD_MAP_get mood = (case map_of MOOD_MAP mood of None \<Rightarrow> [] | Some names \<Rightarrow> names)"

section \<open>The external service and the HTTP helper\<close>

text \<open>
  An outbound call is a request; the service answers the \<open>n\<close>-th call of the process
  with a reply that may depend on \<open>n\<close> and on the request: no connection, or a status
  code with a body (\<open>None\<close> when the body is not JSON). The environment also holds what
  the program takes from outside the repository: the credential and Python's
  \<^verbatim>\<open>str.lower\<close>. The process state holds the log of the calls issued so far and the three
  memoization caches.
\<close>

record request =
  req_url :: string
  req_params :: "(string \<times> json) list"
  req_headers :: "(string \<times> string) list option"
  req_timeout :: nat

datatype reply = ConnectionFailed | Reply nat "json option"

record env =
  TMDB_API_KEY :: string
  transport :: "nat \<Rightarrow> request \<Rightarrow> reply"
  str_lower :: "string \<Rightarrow> string"

record state =
  calls :: "request list"
  keyword_cache :: "(string \<times> json) list"
  mood_cache :: "(string \<times> json list) list"
  providers_cache :: "((int \<times> string) \<times> json list) list"

definition initial_state :: state where
  "initial_state = \<lparr>calls = [], keyword_cache = [], mood_cache = [], providers_cache = []\<rparr>"

definition BASE :: string where
  "BASE = ''https://api.themoviedb.org/3''"

definition HEADERS :: "env \<Rightarrow> (string \<times> string) list option" where
  "HEADERS env =
     (if TMDB_API_KEY env \<noteq> [] \<and> length (TMDB_API_KEY env) > 40
      then Some [(''Authorization'', ''Bearer '' @ TMDB_API_KEY env)] else None)"

text \<open>A dictionary display \<^verbatim>\<open>{k: v, **d}\<close>: later keys overwrite, positions are kept.\<close>

fun dict_set :: "string \<Rightarrow> json \<Rightarrow> (string \<times> json) list \<Rightarrow> (string \<times> json) list" where
  "dict_set k v [] = [(k, v)]"
| "dict_set k v (kv # kvs) = (if fst kv = k then (k, v) # kvs else kv # dict_set k v kvs)"

definition dict_merge :: "(string \<times> json) list \<Rightarrow> (string \<times> json) list \<Rightarrow> (string \<times> json) list" where
  "dict_merge d extra = foldl (\<lambda>acc kv. dict_set (fst kv) (snd kv) acc) d extra"

text \<open>\<^verbatim>\<open>requests.get\<close>: the call is logged and the service's reply comes back.\<close>

definition requests_get :: "env \<Rightarrow> request \<Rightarrow> state \<Rightarrow> reply \<times> state" where
  "requests_get env req st = (transport env (length (calls st)) req, st\<lparr>calls := calls st @ [req]\<rparr>)"

text \<open>\<^verbatim>\<open>resp.raise_for_status(); return resp.json()\<close>.\<close>

fun response_json :: "reply \<Rightarrow> error + json" where
  "response_json ConnectionFailed = Inl RequestException"
| "response_json (Reply code body) =
     (if 400 \<le> code \<and> code < 600 then Inl (HTTPError code)
      else (case body of None \<Rightarrow> Inl JSONDecodeError | Some j \<Rightarrow> Inr j))"

definition tmdb_get :: "env \<Rightarrow> string \<Rightarrow> (string \<times> json) list option \<Rightarrow> state \<Rightarrow> (error + json) \<times> state" where
  "tmdb_get env path params_arg st =
     (let ps = (case params_arg of None \<Rightarrow> [] | Some d \<Rightarrow> d) in
      case HEADERS env of
        Some h \<Rightarrow>
          (let (resp, st') = requests_get env
                 \<lparr>req_url = BASE @ path, req_params = ps, req_headers = Some h, req_timeout = 20\<rparr> st
           in (response_json resp, st'))
      | None \<Rightarrow>
          if TMDB_API_KEY env = [] then (Inl RuntimeError, st)
          else
            (let (resp, st') = requests_get env
                   \<lparr>req_url = BASE @ path,
                    req_params = dict_merge [(''api_key'', JStr (TMDB_API_KEY env))] ps,
                    req_headers = None, req_timeout = 20\<rparr> st
             in (response_json resp, st')))"

section \<open>Memoization\<close>

text \<open>
  \<^verbatim>\<open>functools.lru_cache(maxsize)\<close>: the cache is a list of (key, result) with the most
  recently used entry first. A hit moves the entry to the front. After a miss the wrapped
  function runs; when it returns, its result is stored at the front, and a full cache
  drops its least recently used entry. When it raises, nothing is stored.
\<close>

definition lru_hit :: "'k \<Rightarrow> ('k \<times> 'v) list \<Rightarrow> ('v \<times> ('k \<times> 'v) list) option" where
  "lru_hit k c =
     (case map_of c k of
        None \<Rightarrow> None
      | Some v \<Rightarrow> Some (v, (k, v) # filter (\<lambda>kv. fst kv \<noteq> k) c))"

definition lru_add :: "nat \<Rightarrow> 'k \<Rightarrow> 'v \<Rightarrow> ('k \<times> 'v) list \<Rightarrow> ('k \<times> 'v) list" where
  "lru_add maxsize k v c =
     (if map_of c k \<noteq> None then c
      else if length c \<ge> maxsize then (k, v) # butlast c
      else (k, v) # c)"

section \<open>Keyword resolution\<close>

text \<open>
  \<^verbatim>\<open>next((r for r in results if r.get("name", "").lower() == keyword_name.lower()), None)\<close>
\<close>

fun find_exact :: "env \<Rightarrow> string \<Rightarrow> json list \<Rightarrow> error + json" where
  "find_exact env keyword_name [] = Inr JNull"
| "find_exact env keyword_name (r # rs) =
     (case py_get r ''name'' (JStr []) of
        Inl e \<Rightarrow> Inl e
      | Inr n \<Rightarrow>
          (case py_lower (str_lower env) n of
             Inl e \<Rightarrow> Inl e
           | Inr l \<Rightarrow>
               if l = str_lower env keyword_name then Inr r else find_exact env keyword_name rs))"

text \<open>Lines 76 to 81 of \<^verbatim>\<open>search_keyword_id\<close>: the choice among the candidates of a response.\<close>

definition best_keyword_id :: "env \<Rightarrow> string \<Rightarrow> json \<Rightarrow> error + json" where
  "best_keyword_id env keyword_name data =
     ebind (py_get data ''results'' (JList [])) (\<lambda>results.
       if \<not> truthy results then Inr JNull
       else
         ebind (py_iter results) (\<lambda>rs.
         ebind (find_exact env keyword_name rs) (\<lambda>exact.
         ebind (if truthy exact then Inr exact else py_index0 results) (\<lambda>best.
           py_get best ''id'' JNull))))"

text \<open>The function under the decorator: one call of the service, then the choice.\<close>

definition search_keyword_id_wrapped :: "env \<Rightarrow> string \<Rightarrow> state \<Rightarrow> (error + json) \<times> state" where
  "search_keyword_id_wrapped env keyword_name st =
     (case tmdb_get env ''/search/keyword'' (Some [(''query'', JStr keyword_name)]) st of
        (Inl e, st') \<Rightarrow> (Inl e, st')
      | (Inr data, st') \<Rightarrow> (best_keyword_id env keyword_name data, st'))"

definition search_keyword_id :: "env \<Rightarrow> string \<Rightarrow> state \<Rightarrow> (error + json) \<times> state" where
  "search_keyword_id env keyword_name st =
     (case lru_hit keyword_name (keyword_cache st) of
        Some (v, c) \<Rightarrow> (Inr v, st\<lparr>keyword_cache := c\<rparr>)
      | None \<Rightarrow>
          (case search_keyword_id_wrapped env keyword_name st of
             (Inl e, st') \<Rightarrow> (Inl e, st')
           | (Inr v, st') \<Rightarrow>
               (Inr v, st'\<lparr>keyword_cache := lru_add 2048 keyword_name v (keyword_cache st')\<rparr>)))"

text \<open>The loop of \<^verbatim>\<open>resolve_mood_to_keyword_ids\<close> (lines 87 to 90), \<open>ids\<close> its accumulator.\<close>

fun resolve_loop :: "env \<Rightarrow> string list \<Rightarrow> json list \<Rightarrow> state \<Rightarrow> (error + json list) \<times> state" where
  "resolve_loop env [] ids st = (Inr ids, st)"
| "resolve_loop env (n # ns) ids st =
     (case search_keyword_id env n st of
        (Inl e, st') \<Rightarrow> (Inl e, st')
      | (Inr kid, st') \<Rightarrow> resolve_loop env ns (if truthy kid then ids @ [kid] else ids) st')"

definition resolve_mood_to_keyword_ids_wrapped :: "env \<Rightarrow> string \<Rightarrow> state \<Rightarrow> (error + json list) \<times> state" where
  "resolve_mood_to_keyword_ids_wrapped env mood st = resolve_loop env (MOOD_MAP_get mood) [] st"

definition resolve_mood_to_keyword_ids :: "env \<Rightarrow> string \<Rightarrow> state \<Rightarrow> (error + json list) \<times> state" where
  "resolve_mood_to_keyword_ids env mood st =
     (case lru_hit mood (mood_cache st) of
        Some (v, c) \<Rightarrow> (Inr v, st\<lparr>mood_cache := c\<rparr>)
      | None \<Rightarrow>
          (case resolve_mood_to_keyword_ids_wrapped env mood st of
             (Inl e, st') \<Rightarrow> (Inl e, st')
           | (Inr v, st') \<Rightarrow> (Inr v, st'\<lparr>mood_cache := lru_add 512 mood v (mood_cache st')\<rparr>)))"

section \<open>Discovery\<close>

definition discover_params ::
  "int list \<Rightarrow> bool \<Rightarrow> string \<Rightarrow> string \<Rightarrow> int \<Rightarrow> int \<Rightarrow> int \<Rightarrow> int \<Rightarrow> string \<Rightarrow> (string \<times> json) list" where
  "discover_params keyword_ids require_all language region vote_count_gte year_min year_max page sort_by =
     (let kw_param = (if require_all then join '','' (map str keyword_ids)
                      else join ''|'' (map str keyword_ids))
      in [(''with_keywords'', JStr kw_param),
          (''include_adult'', JStr ''false''),
          (''language'', JStr language),
          (''region'', JStr region),
          (''sort_by'', JStr sort_by),
          (''vote_count.gte'', JInt vote_count_gte),
          (''page'', JInt page),
          (''primary_release_date.gte'', JStr (str year_min @ ''-01-01'')),
          (''primary_release_date.lte'', JStr (str year_max @ ''-12-31''))])"

definition discover_movies ::
  "env \<Rightarrow> int list \<Rightarrow> bool \<Rightarrow> string \<Rightarrow> string \<Rightarrow> int \<Rightarrow> int \<Rightarrow> int \<Rightarrow> int \<Rightarrow> string \<Rightarrow> state
   \<Rightarrow> (error + json) \<times> state" where
  "discover_movies env keyword_ids require_all language region vote_count_gte year_min year_max page sort_by st =
     (if keyword_ids = [] then (Inr (JObj [(''results'', JList [])]), st)
      else tmdb_get env ''/discover/movie''
             (Some (discover_params keyword_ids require_all language region vote_count_gte
                      year_min year_max page sort_by)) st)"

section \<open>Watch providers\<close>

text \<open>The inner loop of lines 141 and 142, \<open>providers\<close> its accumulator.\<close>

fun names_loop :: "json list \<Rightarrow> json list \<Rightarrow> error + json list" where
  "names_loop [] providers = Inr providers"
| "names_loop (prov # rest) providers =
     (case py_get prov ''provider_name'' JNull of
        Inl e \<Rightarrow> Inl e
      | Inr n \<Rightarrow> names_loop rest (providers @ [n]))"

text \<open>The outer loop of line 140 over the category keys.\<close>

fun category_loop :: "json \<Rightarrow> string list \<Rightarrow> json list \<Rightarrow> error + json list" where
  "category_loop entry [] providers = Inr providers"
| "category_loop entry (k # ks) providers =
     (case py_get entry k (JList []) of
        Inl e \<Rightarrow> Inl e
      | Inr v \<Rightarrow>
          (case py_iter (if truthy v then v else JList []) of
             Inl e \<Rightarrow> Inl e
           | Inr provs \<Rightarrow>
               (case names_loop provs providers of
                  Inl e \<Rightarrow> Inl e
                | Inr providers' \<Rightarrow> category_loop entry ks providers')))"

definition CATEGORIES :: "string list" where
  "CATEGORIES = [''flatrate'', ''rent'', ''buy'', ''ads'', ''free'']"

text \<open>
  Membership in the set \<^verbatim>\<open>seen\<close>: lists and dictionaries are unhashable, and among the
  hashable values \<^verbatim>\<open>True == 1\<close> and \<^verbatim>\<open>False == 0\<close>.
\<close>

fun hashable :: "json \<Rightarrow> bool" where
  "hashable (JList xs) = False"
| "hashable (JObj kvs) = False"
| "hashable _ = True"

fun py_eq :: "json \<Rightarrow> json \<Rightarrow> bool" where
  "py_eq (JBool a) (JBool b) = (a = b)"
| "py_eq (JBool a) (JInt j) = ((if a then 1 else 0) = j)"
| "py_eq (JInt i) (JBool b) = (i = (if b then 1 else 0))"
| "py_eq x y = (x = y)"

text \<open>The loop of lines 146 to 149.\<close>

fun dedup_loop :: "json list \<Rightarrow> json list \<Rightarrow> json list \<Rightarrow> error + json list" where
  "dedup_loop [] seen out = Inr out"
| "dedup_loop (p # ps) seen out =
     (if \<not> truthy p then dedup_loop ps seen out
      else if \<not> hashable p then Inl TypeError
      else if list_ex (py_eq p) seen then dedup_loop ps seen out
      else dedup_loop ps (p # seen) (out @ [p]))"

text \<open>Lines 137 to 150 of \<^verbatim>\<open>get_watch_providers\<close>: what follows the \<^verbatim>\<open>try\<close> block.\<close>

definition providers_of :: "json \<Rightarrow> string \<Rightarrow> error + json list" where
  "providers_of data watch_region =
     ebind (py_get data ''results'' (JObj [])) (\<lambda>results.
     ebind (py_get results watch_region (JObj [])) (\<lambda>entry.
     ebind (category_loop entry CATEGORIES []) (\<lambda>providers.
       dedup_loop providers [] [])))"

definition get_watch_providers_wrapped :: "env \<Rightarrow> int \<Rightarrow> string \<Rightarrow> state \<Rightarrow> (error + json list) \<times> state" where
  "get_watch_providers_wrapped env movie_id watch_region st =
     (case tmdb_get env (''/movie/'' @ str movie_id @ ''/watch/providers'') None st of
        (Inl e, st') \<Rightarrow> (Inr [], st')
      | (Inr data, st') \<Rightarrow> (providers_of data watch_region, st'))"

definition get_watch_providers :: "env \<Rightarrow> int \<Rightarrow> string \<Rightarrow> state \<Rightarrow> (error + json list) \<times> state" where
  "get_watch_providers env movie_id watch_region st =
     (case lru_hit (movie_id, watch_region) (providers_cache st) of
        Some (v, c) \<Rightarrow> (Inr v, st\<lparr>providers_cache := c\<rparr>)
      | None \<Rightarrow>
          (case get_watch_providers_wrapped env movie_id watch_region st of
             (Inl e, st') \<Rightarrow> (Inl e, st')
           | (Inr v, st') \<Rightarrow>
               (Inr v, st'\<lparr>providers_cache := lru_add 1024 (movie_id, watch_region) v (providers_cache st')\<rparr>)))"

text \<open>The request that \<^verbatim>\<open>tmdb_get\<close> sends, in either of its two branches.\<close>

definition tmdb_request :: "env \<Rightarrow> string \<Rightarrow> (string \<times> json) list option \<Rightarrow> request" where
  "tmdb_request env path params_arg =
     \<lparr>req_url = BASE @ path,
      req_params =
        (if HEADERS env = None
         then dict_merge [(''api_key'', JStr (TMDB_API_KEY env))]
                (case params_arg of None \<Rightarrow> [] | Some d \<Rightarrow> d)
         else (case params_arg of None \<Rightarrow> [] | Some d \<Rightarrow> d)),
      req_headers = HEADERS env, req_timeout = 20\<rparr>"

section \<open>A stubbed service\<close>

text \<open>
  On a string of ASCII characters \<^verbatim>\<open>str.lower\<close> turns the letters A to Z into a to z and
  leaves the rest. The stubbed environments below take \<open>ascii_lower\<close> for \<open>str_lower\<close>;
  the examples evaluated in them apply it to ASCII strings only, where it is what Python
  computes.
\<close>

definition ascii_lower_char :: "char \<Rightarrow> char" where
  "ascii_lower_char c =
     (if 65 \<le> (of_char c :: nat) \<and> (of_char c :: nat) \<le> 90
      then char_of ((of_char c :: nat) + 32) else c)"

definition ascii_lower :: "string \<Rightarrow> string" where
  "ascii_lower s = map ascii_lower_char s"

text \<open>A service that gives the same reply to every call, used with a short API key.\<close>

definition stub_env :: "reply \<Rightarrow> env" where
  "stub_env r = \<lparr>TMDB_API_KEY = ''key'', transport = (\<lambda>n req. r), str_lower = ascii_lower\<rparr>"

definition ok :: "json \<Rightarrow> reply" where
  "ok j = Reply 200 (Some j)"

section \<open>The documented shape of the responses\<close>

text \<open>
  A candidate of the keyword search as the service documents it: an object with a
  \<^verbatim>\<open>name\<close> and a numeric \<^verbatim>\<open>id\<close>.
\<close>

definition candidate :: "string \<times> int \<Rightarrow> json" where
  "candidate c = JObj [(''name'', JStr (fst c)), (''id'', JInt (snd c))]"

text \<open>The keyword-search response of the specification's example.\<close>

definition drama_response :: json where
  "drama_response =
     JObj [(''results'', JList [JObj [(''name'', JStr ''Drama''), (''id'', JInt 5)],
                                JObj [(''name'', JStr ''drama''), (''id'', JInt 7)]])]"

text \<open>
  A provider object of the watch-providers response carries its name under
  \<^verbatim>\<open>provider_name\<close>; \<open>category_names entry k ns\<close> says that category \<open>k\<close> of a region entry
  lists providers with the names \<open>ns\<close>, in that order (a category that is absent or
  \<^verbatim>\<open>null\<close> lists none).
\<close>

definition has_name :: "json \<Rightarrow> string \<Rightarrow> bool" where
  "has_name prov n = (case prov of JObj p \<Rightarrow> map_of p ''provider_name'' = Some (JStr n) | _ \<Rightarrow> False)"

definition category_names :: "(string \<times> json) list \<Rightarrow> string \<Rightarrow> string list \<Rightarrow> bool" where
  "category_names entry k ns =
     (case map_of entry k of
        None \<Rightarrow> ns = []
      | Some JNull \<Rightarrow> ns = []
      | Some (JList provs) \<Rightarrow> list_all2 has_name provs ns
      | Some _ \<Rightarrow> False)"

text \<open>Deduplication that keeps the first occurrence of each element, in order.\<close>

function first_seen :: "'a list \<Rightarrow> 'a list" where
  "first_seen [] = []"
| "first_seen (x # xs) = x # first_seen (removeAll x xs)"
  by pat_completeness auto
termination
  by (relation "measure length") (simp_all add: le_imp_less_Suc length_removeAll_less_eq)

text \<open>The watch-providers response of the specification's example.\<close>

definition providers_response :: json where
  "providers_response =
     JObj [(''results'', JObj [(''CH'', JObj
       [(''flatrate'', JList [JObj [(''provider_name'', JStr ''Netflix'')]]),
        (''buy'', JList [JObj [(''provider_name'', JStr ''Netflix'')],
                         JObj [(''provider_name'', JStr ''Apple TV'')]])])])]"

section \<open>Sequences of calls\<close>




section \<open>The states of a run\<close>

text \<open>
  The states that a process can be in: it starts with empty caches and an empty log, and
  every step is a call of one of the four functions, with any arguments.
\<close>

inductive reachable :: "env \<Rightarrow> state \<Rightarrow> bool" for env :: env where
  start: "reachable env initial_state"
| search: "reachable env st \<Longrightarrow> reachable env (snd (search_keyword_id env keyword_name st))"
| resolve: "reachable env st \<Longrightarrow> reachable env (snd (resolve_mood_to_keyword_ids env mood st))"
| discover: "reachable env st \<Longrightarrow>
     reachable env (snd (discover_movies env keyword_ids require_all language region vote_count_gte
                           year_min year_max page sort_by st))"
| providers: "reachable env st \<Longrightarrow> reachable env (snd (get_watch_providers env movie_id watch_region st))"

text \<open>
  \<open>resolution env n v\<close>: some call of \<open>search_keyword_id\<close> for the keyword \<open>n\<close> in a run
  returns \<open>v\<close>. \<open>resolved_from env names ids\<close>: \<open>ids\<close> is what remains, in order, of one
  resolution per keyword of \<open>names\<close> when the results that are absent, zero or otherwise
  falsy are left out.
\<close>

definition resolution :: "env \<Rightarrow> string \<Rightarrow> json \<Rightarrow> bool" where
  "resolution env n v = (\<exists>st. reachable env st \<and> fst (search_keyword_id env n st) = Inr v)"

definition resolved_from :: "env \<Rightarrow> string list \<Rightarrow> json list \<Rightarrow> bool" where
  "resolved_from env names ids =
     (\<exists>vs. list_all2 (resolution env) names vs \<and> ids = filter truthy vs)"

text \<open>
  A service that knows no keyword \<^verbatim>\<open>friendship\<close>, gives the identifier 0 for
  \<^verbatim>\<open>community\<close>, and answers every other keyword search with the example response.
\<close>

definition cozy_env :: env where
  "cozy_env =
     \<lparr>TMDB_API_KEY = ''key'',
      transport = (\<lambda>n req.
        case map_of (req_params req) ''query'' of
          Some (JStr q) \<Rightarrow>
            if q = ''friendship'' then ok (JObj [(''results'', JList [])])
            else if q = ''community'' then ok (JObj [(''results'', JList [candidate (''community'', 0)])])
            else ok drama_response
        | _ \<Rightarrow> Reply 404 None),
      str_lower = ascii_lower\<rparr>"


section \<open>The mood catalog: lookup\<close>

lemma MOOD_MAP_entries:
  "list_all (\<lambda>kv. 1 \<le> length (snd kv) \<and> length (snd kv) \<le> 6 \<and> distinct (snd kv)) MOOD_MAP"
  unfolding MOOD_MAP_def by simp

lemma MOOD_MAP_labels_distinct: "distinct (map fst MOOD_MAP)"
  unfolding MOOD_MAP_def by simp

text \<open>
  C6. The lookup in the mood catalog is a total function (it has no error result): for a
  label of the catalog it gives that mood's keyword sequence, which has between 1 and 6
  entries and no entry twice; for any other label it gives the empty sequence.
\<close>

theorem mood_lookup_total:
  "(mood \<in> fst ` set MOOD_MAP \<longrightarrow>
      map_of MOOD_MAP mood = Some (MOOD_MAP_get mood) \<and>
      1 \<le> length (MOOD_MAP_get mood) \<and> length (MOOD_MAP_get mood) \<le> 6 \<and>
      distinct (MOOD_MAP_get mood))
   \<and> (mood \<notin> fst ` set MOOD_MAP \<longrightarrow> MOOD_MAP_get mood = [])"
proof (cases "map_of MOOD_MAP mood")
  case None
  then show ?thesis
    by (simp add: MOOD_MAP_get_def map_of_eq_None_iff [symmetric])
next
  case (Some names)
  then have mem: "(mood, names) \<in> set MOOD_MAP"
    by (rule map_of_SomeD)
  then have known: "mood \<in> fst ` set MOOD_MAP"
    by force
  from mem MOOD_MAP_entries
  have "1 \<le> length names \<and> length names \<le> 6 \<and> distinct names"
    by (auto simp: list_all_iff)
  with Some known show ?thesis
    by (simp add: MOOD_MAP_get_def)
qed

theorem mood_lookup_total_witness:
  "''Cozy'' \<in> fst ` set MOOD_MAP
   \<and> MOOD_MAP_get ''Cozy'' = [''small town'', ''friendship'', ''community'', ''slice of life'']
   \<and> 1 \<le> length (MOOD_MAP_get ''Cozy'') \<and> length (MOOD_MAP_get ''Cozy'') \<le> 6
   \<and> distinct (MOOD_MAP_get ''Cozy'')
   \<and> ''Sleepy'' \<notin> fst ` set MOOD_MAP \<and> MOOD_MAP_get ''Sleepy'' = []"
proof -
  have a: "''Cozy'' \<in> fst ` set MOOD_MAP"
    by (simp add: MOOD_MAP_def)
  have b: "''Sleepy'' \<notin> fst ` set MOOD_MAP"
    by (simp add: MOOD_MAP_def)
  have c: "MOOD_MAP_get ''Cozy'' = [''small town'', ''friendship'', ''community'', ''slice of life'']"
    by (simp add: MOOD_MAP_get_def MOOD_MAP_def)
  from a b c mood_lookup_total [of "''Cozy''"] mood_lookup_total [of "''Sleepy''"]
  show ?thesis by blast
qed

section \<open>The HTTP helper: what it sends and what it returns\<close>

lemma tmdb_get_no_key:
  "TMDB_API_KEY env = [] \<Longrightarrow> tmdb_get env path ps st = (Inl RuntimeError, st)"
  by (simp add: tmdb_get_def HEADERS_def)

lemma tmdb_get_call:
  assumes "TMDB_API_KEY env \<noteq> []"
  shows "tmdb_get env path ps st =
           (response_json (transport env (length (calls st)) (tmdb_request env path ps)),
            st\<lparr>calls := calls st @ [tmdb_request env path ps]\<rparr>)"
  using assms
  by (cases "HEADERS env") (simp_all add: tmdb_get_def requests_get_def tmdb_request_def Let_def)

lemma tmdb_get_caches:
  "keyword_cache (snd (tmdb_get env path ps st)) = keyword_cache st"
  "mood_cache (snd (tmdb_get env path ps st)) = mood_cache st"
  "providers_cache (snd (tmdb_get env path ps st)) = providers_cache st"
  by (simp_all add: tmdb_get_def requests_get_def Let_def split: option.splits)

lemma stub_env_simps:
  "TMDB_API_KEY (stub_env r) = ''key''" "transport (stub_env r) n req = r"
  "str_lower (stub_env r) = ascii_lower"
  by (simp_all add: stub_env_def)

lemma initial_state_simps:
  "calls initial_state = []" "keyword_cache initial_state = []"
  "mood_cache initial_state = []" "providers_cache initial_state = []"
  by (simp_all add: initial_state_def)

section \<open>Discovery\<close>

lemma discover_request_lookup:
  "map_of (req_params (tmdb_request env path (Some (discover_params ids ra lang reg vc ymin ymax pg sb))))
      ''with_keywords'' = Some (JStr (join (if ra then '','' else ''|'') (map str ids)))"
  "map_of (req_params (tmdb_request env path (Some (discover_params ids ra lang reg vc ymin ymax pg sb))))
      ''primary_release_date.gte'' = Some (JStr (str ymin @ ''-01-01''))"
  "map_of (req_params (tmdb_request env path (Some (discover_params ids ra lang reg vc ymin ymax pg sb))))
      ''primary_release_date.lte'' = Some (JStr (str ymax @ ''-12-31''))"
  by (simp_all add: tmdb_request_def dict_merge_def discover_params_def Let_def)

lemma discover_movies_call:
  assumes "keyword_ids \<noteq> []" and "TMDB_API_KEY env \<noteq> []"
  shows "discover_movies env keyword_ids ra lang reg vc ymin ymax pg sb st =
           (response_json (transport env (length (calls st))
              (tmdb_request env ''/discover/movie''
                 (Some (discover_params keyword_ids ra lang reg vc ymin ymax pg sb)))),
            st\<lparr>calls := calls st @
              [tmdb_request env ''/discover/movie''
                 (Some (discover_params keyword_ids ra lang reg vc ymin ymax pg sb))]\<rparr>)"
  using assms(1)
  by (simp add: discover_movies_def tmdb_get_call [OF assms(2)])

text \<open>
  C4. With an empty identifier list, whatever the mode and the filter, \<open>discover_movies\<close>
  returns the empty result set \<^verbatim>\<open>{"results": []}\<close> and leaves the state as it was: the log
  of outbound calls has not grown, so the service was not contacted.
\<close>

theorem discover_movies_empty:
  "discover_movies env [] require_all language region vote_count_gte year_min year_max page sort_by st
     = (Inr (JObj [(''results'', JList [])]), st)
   \<and> calls (snd (discover_movies env [] require_all language region vote_count_gte year_min year_max
                   page sort_by st)) = calls st"
  by (simp add: discover_movies_def)

text \<open>
  C5. With a non-empty identifier list (and a credential, without which no call leaves),
  \<open>discover_movies\<close> issues exactly one call, whose \<^verbatim>\<open>with_keywords\<close> parameter is the
  decimal identifiers joined with a comma when \<open>require_all\<close> holds and with a pipe
  otherwise; for the identifiers 1, 2, 3 these strings are \<^verbatim>\<open>1,2,3\<close> and \<^verbatim>\<open>1|2|3\<close>.
\<close>

theorem discover_with_keywords:
  assumes "keyword_ids \<noteq> []" and "TMDB_API_KEY env \<noteq> []"
  shows "calls (snd (discover_movies env keyword_ids require_all language region vote_count_gte
                       year_min year_max page sort_by st))
           = calls st @ [last (calls (snd (discover_movies env keyword_ids require_all language region
                                vote_count_gte year_min year_max page sort_by st)))]
       \<and> map_of (req_params (last (calls (snd (discover_movies env keyword_ids require_all language
                                region vote_count_gte year_min year_max page sort_by st)))))
            ''with_keywords''
           = Some (JStr (join (if require_all then '','' else ''|'') (map str keyword_ids)))
       \<and> join '','' (map str [1, 2, 3]) = ''1,2,3''
       \<and> join ''|'' (map str [1, 2, 3]) = ''1|2|3''"
proof -
  have "join '','' (map str [1, 2, 3]) = ''1,2,3''" by code_simp
  moreover have "join ''|'' (map str [1, 2, 3]) = ''1|2|3''" by code_simp
  ultimately show ?thesis
    by (simp add: discover_movies_call [OF assms] discover_request_lookup)
qed

theorem discover_with_keywords_witness:
  "calls (snd (discover_movies (stub_env (ok (JObj []))) [1, 2, 3] True ''en-US'' ''CH'' 200 1950 2025 1
                 ''vote_average.desc'' initial_state)) =
     [last (calls (snd (discover_movies (stub_env (ok (JObj []))) [1, 2, 3] True ''en-US'' ''CH'' 200 1950
                 2025 1 ''vote_average.desc'' initial_state)))]
   \<and> map_of (req_params (last (calls (snd (discover_movies (stub_env (ok (JObj []))) [1, 2, 3] True
                 ''en-US'' ''CH'' 200 1950 2025 1 ''vote_average.desc'' initial_state))))) ''with_keywords''
       = Some (JStr ''1,2,3'')
   \<and> map_of (req_params (last (calls (snd (discover_movies (stub_env (ok (JObj []))) [1, 2, 3] False
                 ''en-US'' ''CH'' 200 1950 2025 1 ''vote_average.desc'' initial_state))))) ''with_keywords''
       = Some (JStr ''1|2|3'')"
proof -
  have k: "TMDB_API_KEY (stub_env (ok (JObj []))) \<noteq> []"
    by (simp add: stub_env_simps)
  have n: "[1, 2, 3] \<noteq> ([] :: int list)" by simp
  from discover_with_keywords [OF n k, of True "''en-US''" "''CH''" 200 1950 2025 1
         "''vote_average.desc''" initial_state]
       discover_with_keywords [OF n k, of False "''en-US''" "''CH''" 200 1950 2025 1
         "''vote_average.desc''" initial_state]
  show ?thesis by (simp add: initial_state_simps)
qed

text \<open>
  C7. For all years \<open>year_min\<close> and \<open>year_max\<close>, in whatever order, the call that
  \<open>discover_movies\<close> issues carries the lower bound \<^verbatim>\<open>{year_min}-01-01\<close> and the upper bound
  \<^verbatim>\<open>{year_max}-12-31\<close>, and the result is the service's answer to that call: nothing
  compares the two years.
\<close>

theorem discover_date_bounds:
  assumes "keyword_ids \<noteq> []" and "TMDB_API_KEY env \<noteq> []"
  shows "map_of (req_params (last (calls (snd (discover_movies env keyword_ids require_all language
                                region vote_count_gte year_min year_max page sort_by st)))))
            ''primary_release_date.gte'' = Some (JStr (str year_min @ ''-01-01''))
       \<and> map_of (req_params (last (calls (snd (discover_movies env keyword_ids require_all language
                                region vote_count_gte year_min year_max page sort_by st)))))
            ''primary_release_date.lte'' = Some (JStr (str year_max @ ''-12-31''))
       \<and> fst (discover_movies env keyword_ids require_all language region vote_count_gte
                 year_min year_max page sort_by st)
           = response_json (transport env (length (calls st))
               (last (calls (snd (discover_movies env keyword_ids require_all language region
                                    vote_count_gte year_min year_max page sort_by st)))))"
  by (simp add: discover_movies_call [OF assms] discover_request_lookup)

theorem discover_date_bounds_witness:
  "map_of (req_params (last (calls (snd (discover_movies (stub_env (ok (JObj []))) [18] True ''de-CH''
             ''CH'' 200 2025 1950 1 ''vote_average.desc'' initial_state)))))
      ''primary_release_date.gte'' = Some (JStr ''2025-01-01'')
   \<and> map_of (req_params (last (calls (snd (discover_movies (stub_env (ok (JObj []))) [18] True ''de-CH''
             ''CH'' 200 2025 1950 1 ''vote_average.desc'' initial_state)))))
      ''primary_release_date.lte'' = Some (JStr ''1950-12-31'')
   \<and> fst (discover_movies (stub_env (ok (JObj []))) [18] True ''de-CH'' ''CH'' 200 2025 1950 1
             ''vote_average.desc'' initial_state) = Inr (JObj [])"
proof -
  have k: "TMDB_API_KEY (stub_env (ok (JObj []))) \<noteq> []"
    by (simp add: stub_env_simps)
  have n: "[18] \<noteq> ([] :: int list)" by simp
  have y: "str 2025 = ''2025''" "str 1950 = ''1950''" by code_simp+
  from discover_date_bounds [OF n k, of True "''de-CH''" "''CH''" 200 2025 1950 1
         "''vote_average.desc''" initial_state]
  show ?thesis by (simp add: y stub_env_simps ok_def)
qed



section \<open>Keyword resolution: the choice among candidates\<close>

lemma find_exact_candidates:
  "find_exact env kw (map candidate cs) =
     Inr (case find (\<lambda>c. str_lower env (fst c) = str_lower env kw) cs of
            None \<Rightarrow> JNull | Some c \<Rightarrow> candidate c)"
  by (induction cs) (simp_all add: candidate_def)

lemma candidate_simps:
  "truthy (candidate c)" "py_get (candidate c) ''id'' JNull = Inr (JInt (snd c))"
  by (simp_all add: candidate_def)

lemma best_keyword_id_candidates:
  assumes "map_of d ''results'' = Some (JList (map candidate cs))"
  shows "best_keyword_id env kw (JObj d) =
     Inr (case cs of
            [] \<Rightarrow> JNull
          | c0 # _ \<Rightarrow> (case find (\<lambda>c. str_lower env (fst c) = str_lower env kw) cs of
                         Some c \<Rightarrow> JInt (snd c)
                       | None \<Rightarrow> JInt (snd c0)))"
proof -
  have "best_keyword_id env kw (JObj d) =
          (if cs = [] then Inr JNull
           else ebind (find_exact env kw (map candidate cs)) (\<lambda>exact.
                ebind (if truthy exact then Inr exact else py_index0 (JList (map candidate cs)))
                  (\<lambda>best. py_get best ''id'' JNull)))"
    using assms by (simp add: best_keyword_id_def ebind_def)
  also have "\<dots> = Inr (case cs of
            [] \<Rightarrow> JNull
          | c0 # _ \<Rightarrow> (case find (\<lambda>c. str_lower env (fst c) = str_lower env kw) cs of
                         Some c \<Rightarrow> JInt (snd c)
                       | None \<Rightarrow> JInt (snd c0)))"
    unfolding find_exact_candidates
    by (cases cs) (auto simp: ebind_def candidate_simps split: option.splits)
  finally show ?thesis .
qed

lemma search_keyword_id_miss:
  assumes "map_of (keyword_cache st) kw = None"
  shows "fst (search_keyword_id env kw st) =
           (case fst (tmdb_get env ''/search/keyword'' (Some [(''query'', JStr kw)]) st) of
              Inl e \<Rightarrow> Inl e | Inr data \<Rightarrow> best_keyword_id env kw data)"
  using assms
  by (simp add: search_keyword_id_def search_keyword_id_wrapped_def lru_hit_def
      split: prod.splits sum.splits)

text \<open>
  C1 (as amended). On a cache miss, when the service answers with candidates of the
  documented shape, \<open>search_keyword_id\<close> returns nothing for an empty candidate list, else
  the identifier of the first candidate in response order whose name equals the input up
  to case, else the identifier of the first candidate. Equality up to case is equality
  after \<^verbatim>\<open>str.lower\<close>, the environment's \<open>str_lower\<close>, whatever that function does beyond
  ASCII. For the candidates
  \<^verbatim>\<open>[{name:"Drama", id:5}, {name:"drama", id:7}]\<close> and the input \<^verbatim>\<open>drama\<close> both names match
  up to case, the first in response order wins, and the result is 5.
\<close>

theorem search_keyword_id_selection:
  assumes "map_of (keyword_cache st) keyword_name = None"
    and "fst (tmdb_get env ''/search/keyword'' (Some [(''query'', JStr keyword_name)]) st) = Inr (JObj d)"
    and "map_of d ''results'' = Some (JList (map candidate cs))"
  shows "fst (search_keyword_id env keyword_name st) =
     Inr (case cs of
            [] \<Rightarrow> JNull
          | c0 # _ \<Rightarrow> (case find (\<lambda>c. str_lower env (fst c) = str_lower env keyword_name) cs of
                         Some c \<Rightarrow> JInt (snd c)
                       | None \<Rightarrow> JInt (snd c0)))"
  by (simp add: search_keyword_id_miss [OF assms(1)] assms(2) best_keyword_id_candidates [OF assms(3)])

theorem search_keyword_id_selection_witness:
  "fst (search_keyword_id (stub_env (ok drama_response)) ''drama'' initial_state) = Inr (JInt 5)
   \<and> fst (search_keyword_id (stub_env (ok drama_response)) ''Drama'' initial_state) = Inr (JInt 5)"
proof -
  have m: "map_of (keyword_cache initial_state) kw = None" for kw
    by (simp add: initial_state_simps)
  have t: "fst (tmdb_get (stub_env (ok drama_response)) ''/search/keyword''
                 (Some [(''query'', JStr kw)]) initial_state)
           = Inr (JObj [(''results'', JList (map candidate [(''Drama'', 5), (''drama'', 7)]))])" for kw
    by (simp add: tmdb_get_call stub_env_simps ok_def drama_response_def candidate_def)
  have r: "map_of [(''results'', JList (map candidate [(''Drama'', 5), (''drama'', 7)]))] ''results''
           = Some (JList (map candidate [(''Drama'', 5), (''drama'', 7)]))"
    by simp
  have l: "ascii_lower ''Drama'' = ''drama''" "ascii_lower ''drama'' = ''drama''"
    by code_simp+
  from search_keyword_id_selection [OF m t r, of "''drama''"]
       search_keyword_id_selection [OF m t r, of "''Drama''"]
  show ?thesis by (simp add: l stub_env_simps)
qed

text \<open>
  C1 as stated gives 7 for that response; the code gives 5, since \<^verbatim>\<open>"Drama".lower()\<close>
  already equals \<^verbatim>\<open>"drama"\<close>.
\<close>

theorem search_keyword_id_drama_counterexample:
  "fst (search_keyword_id (stub_env (ok drama_response)) ''drama'' initial_state) = Inr (JInt 5)
   \<and> fst (search_keyword_id (stub_env (ok drama_response)) ''drama'' initial_state) \<noteq> Inr (JInt 7)"
  by code_simp

section \<open>Watch providers\<close>

lemma names_loop_named:
  "list_all2 has_name provs ns \<Longrightarrow> names_loop provs acc = Inr (acc @ map JStr ns)"
proof (induction provs ns arbitrary: acc rule: list_all2_induct)
  case Nil
  then show ?case by simp
next
  case (Cons prov n provs ns)
  then show ?case
    by (cases prov) (simp_all add: has_name_def)
qed

lemma category_step:
  assumes "category_names entry k ns"
  shows "category_loop (JObj entry) (k # ks) acc = category_loop (JObj entry) ks (acc @ map JStr ns)"
proof (cases "map_of entry k")
  case None
  with assms show ?thesis by (simp add: category_names_def)
next
  case (Some v)
  show ?thesis
  proof (cases v)
    case JNull
    with Some assms show ?thesis by (simp add: category_names_def)
  next
    case (JList provs)
    with Some assms have n: "list_all2 has_name provs ns"
      by (simp add: category_names_def)
    have "py_iter (if truthy (JList provs) then JList provs else JList []) = Inr provs"
      by simp
    with Some JList names_loop_named [OF n] show ?thesis
      by (simp del: truthy.simps)
  qed (use Some assms in \<open>simp_all add: category_names_def\<close>)
qed

lemma removeAll_filter: "removeAll x (filter P xs) = filter (\<lambda>y. P y \<and> y \<noteq> x) xs"
  by (induction xs) auto

lemma dedup_loop_strs:
  "dedup_loop (map JStr ns) (map JStr seen) out =
     Inr (out @ map JStr (first_seen (filter (\<lambda>n. n \<noteq> [] \<and> n \<notin> set seen) ns)))"
proof (induction ns arbitrary: seen out)
  case Nil
  then show ?case by simp
next
  case (Cons n ns)
  have ex: "list_ex (py_eq (JStr n)) (map JStr seen) = (n \<in> set seen)"
    by (induction seen) auto
  show ?case
  proof (cases "n = [] \<or> n \<in> set seen")
    case True
    then show ?thesis using Cons.IH [of seen out] ex by auto
  next
    case False
    have "dedup_loop (map JStr (n # ns)) (map JStr seen) out
            = dedup_loop (map JStr ns) (map JStr (n # seen)) (out @ [JStr n])"
      using False ex by simp
    also have "\<dots> = Inr ((out @ [JStr n]) @
                 map JStr (first_seen (filter (\<lambda>m. m \<noteq> [] \<and> m \<notin> set (n # seen)) ns)))"
      by (rule Cons.IH)
    also have "filter (\<lambda>m. m \<noteq> [] \<and> m \<notin> set (n # seen)) ns
                 = removeAll n (filter (\<lambda>m. m \<noteq> [] \<and> m \<notin> set seen) ns)"
      unfolding removeAll_filter by (rule filter_cong) auto
    finally show ?thesis using False by simp
  qed
qed

lemma providers_of_shape:
  assumes "map_of d ''results'' = Some (JObj rs)"
    and "map_of rs watch_region = Some (JObj entry)"
    and "category_names entry ''flatrate'' fl"
    and "category_names entry ''rent'' re"
    and "category_names entry ''buy'' bu"
    and "category_names entry ''ads'' ad"
    and "category_names entry ''free'' fr"
  shows "providers_of (JObj d) watch_region =
           Inr (map JStr (first_seen (filter (\<lambda>n. n \<noteq> []) (fl @ re @ bu @ ad @ fr))))"
proof -
  have "category_loop (JObj entry) CATEGORIES [] = Inr (map JStr (fl @ re @ bu @ ad @ fr))"
    unfolding CATEGORIES_def
    by (subst category_step [OF assms(3)], subst category_step [OF assms(4)],
        subst category_step [OF assms(5)], subst category_step [OF assms(6)],
        subst category_step [OF assms(7)], simp)
  with assms(1,2) dedup_loop_strs [of "fl @ re @ bu @ ad @ fr" "[]" "[]"] show ?thesis
    by (simp add: providers_of_def ebind_def)
qed

lemma providers_of_no_region:
  assumes "map_of d ''results'' = None \<or> (map_of d ''results'' = Some (JObj rs) \<and> map_of rs watch_region = None)"
  shows "providers_of (JObj d) watch_region = Inr []"
  using assms by (auto simp: providers_of_def ebind_def CATEGORIES_def)

lemma get_watch_providers_miss:
  assumes "map_of (providers_cache st) (movie_id, watch_region) = None"
  shows "fst (get_watch_providers env movie_id watch_region st) =
           (case fst (tmdb_get env (''/movie/'' @ str movie_id @ ''/watch/providers'') None st) of
              Inl e \<Rightarrow> Inr [] | Inr data \<Rightarrow> providers_of data watch_region)"
  using assms
  by (simp add: get_watch_providers_def get_watch_providers_wrapped_def lru_hit_def
      split: prod.splits sum.splits)

text \<open>
  C2. On a cache miss, when the service answers with a response of the documented shape
  in which the entry of the region lists, per category, providers with the names \<open>fl\<close>
  (flatrate), \<open>re\<close> (rent), \<open>bu\<close> (buy), \<open>ad\<close> (ads) and \<open>fr\<close> (free), none of them
  empty, \<open>get_watch_providers\<close> returns these names concatenated in that category order
  and deduplicated, each name at its first occurrence. (\<open>providers_of_shape\<close> also covers
  an empty name: the truthiness test of line 147 skips it.) The witness is the
  specification's example, which gives Netflix, Apple TV.
\<close>

theorem get_watch_providers_dedup:
  assumes "map_of (providers_cache st) (movie_id, watch_region) = None"
    and "fst (tmdb_get env (''/movie/'' @ str movie_id @ ''/watch/providers'') None st) = Inr (JObj d)"
    and "map_of d ''results'' = Some (JObj rs)"
    and "map_of rs watch_region = Some (JObj entry)"
    and "category_names entry ''flatrate'' fl"
    and "category_names entry ''rent'' re"
    and "category_names entry ''buy'' bu"
    and "category_names entry ''ads'' ad"
    and "category_names entry ''free'' fr"
    and "[] \<notin> set (fl @ re @ bu @ ad @ fr)"
  shows "fst (get_watch_providers env movie_id watch_region st) =
           Inr (map JStr (first_seen (fl @ re @ bu @ ad @ fr)))"
proof -
  from assms(10) have "filter (\<lambda>n. n \<noteq> []) (fl @ re @ bu @ ad @ fr) = fl @ re @ bu @ ad @ fr"
    by (intro filter_True) auto
  with providers_of_shape [OF assms(3-9)] assms(2) show ?thesis
    by (simp add: get_watch_providers_miss [OF assms(1)])
qed

theorem get_watch_providers_dedup_witness:
  "fst (get_watch_providers (stub_env (ok providers_response)) 603 ''CH'' initial_state)
     = Inr [JStr ''Netflix'', JStr ''Apple TV'']"
proof -
  let ?entry = "[(''flatrate'', JList [JObj [(''provider_name'', JStr ''Netflix'')]]),
        (''buy'', JList [JObj [(''provider_name'', JStr ''Netflix'')],
                         JObj [(''provider_name'', JStr ''Apple TV'')]])]"
  have m: "map_of (providers_cache initial_state) (603::int, ''CH'') = None"
    by (simp add: initial_state_simps)
  have t: "fst (tmdb_get (stub_env (ok providers_response)) (''/movie/'' @ str 603 @ ''/watch/providers'')
                  None initial_state) = Inr (JObj [(''results'', JObj [(''CH'', JObj ?entry)])])"
    by (simp add: tmdb_get_call stub_env_simps ok_def providers_response_def)
  have r: "map_of [(''results'', JObj [(''CH'', JObj ?entry)])] ''results'' = Some (JObj [(''CH'', JObj ?entry)])"
    by simp
  have e: "map_of [(''CH'', JObj ?entry)] ''CH'' = Some (JObj ?entry)"
    by simp
  have c1: "category_names ?entry ''flatrate'' [''Netflix'']"
    by (simp add: category_names_def has_name_def)
  have c2: "category_names ?entry ''rent'' []"
    by (simp add: category_names_def)
  have c3: "category_names ?entry ''buy'' [''Netflix'', ''Apple TV'']"
    by (simp add: category_names_def has_name_def)
  have c4: "category_names ?entry ''ads'' []"
    by (simp add: category_names_def)
  have c5: "category_names ?entry ''free'' []"
    by (simp add: category_names_def)
  have n: "[] \<notin> set ([''Netflix''] @ [] @ [''Netflix'', ''Apple TV''] @ [] @ [])"
    by simp
  from get_watch_providers_dedup [OF m t r e c1 c2 c3 c4 c5 n]
  show ?thesis by simp
qed

text \<open>
  C3 (as amended). On a cache miss, every failure of the HTTP helper (no credential, no
  connection, an error status, a body that is not JSON: any \<open>e\<close>) gives the empty
  provider list, and so does a response without \<^verbatim>\<open>results\<close> or whose \<^verbatim>\<open>results\<close>
  dictionary lacks the region.
\<close>

theorem get_watch_providers_absorbs:
  assumes "map_of (providers_cache st) (movie_id, watch_region) = None"
  shows "(fst (tmdb_get env (''/movie/'' @ str movie_id @ ''/watch/providers'') None st) = Inl e
            \<longrightarrow> fst (get_watch_providers env movie_id watch_region st) = Inr [])
       \<and> (fst (tmdb_get env (''/movie/'' @ str movie_id @ ''/watch/providers'') None st) = Inr (JObj d)
            \<and> (map_of d ''results'' = None
               \<or> (map_of d ''results'' = Some (JObj rs) \<and> map_of rs watch_region = None))
            \<longrightarrow> fst (get_watch_providers env movie_id watch_region st) = Inr [])"
  using providers_of_no_region [of d rs watch_region]
  by (auto simp: get_watch_providers_miss [OF assms])

theorem get_watch_providers_absorbs_witness:
  "fst (get_watch_providers (stub_env ConnectionFailed) 603 ''CH'' initial_state) = Inr []
   \<and> fst (get_watch_providers (stub_env (Reply 500 None)) 603 ''CH'' initial_state) = Inr []
   \<and> fst (get_watch_providers (stub_env (Reply 200 None)) 603 ''CH'' initial_state) = Inr []
   \<and> fst (get_watch_providers (stub_env (ok (JObj [(''results'', JObj [(''DE'', JObj [])])])))
            603 ''CH'' initial_state) = Inr []"
proof -
  have m: "map_of (providers_cache initial_state) (603::int, ''CH'') = None"
    by (simp add: initial_state_simps)
  have t: "fst (tmdb_get (stub_env r) (''/movie/'' @ str 603 @ ''/watch/providers'') None initial_state)
             = response_json r" for r
    by (simp add: tmdb_get_call stub_env_simps)
  from get_watch_providers_absorbs [OF m, of "stub_env ConnectionFailed" RequestException]
       get_watch_providers_absorbs [OF m, of "stub_env (Reply 500 None)" "HTTPError 500"]
       get_watch_providers_absorbs [OF m, of "stub_env (Reply 200 None)" JSONDecodeError]
       get_watch_providers_absorbs [OF m, of "stub_env (ok (JObj [(''results'', JObj [(''DE'', JObj [])])]))"
         _ "[(''results'', JObj [(''DE'', JObj [])])]" "[(''DE'', JObj [])]"]
       t [of ConnectionFailed] t [of "Reply 500 None"] t [of "Reply 200 None"]
       t [of "ok (JObj [(''results'', JObj [(''DE'', JObj [])])])"]
  show ?thesis by (simp add: ok_def)
qed

text \<open>
  C3 as stated promises the empty list for any malformed response. The \<^verbatim>\<open>try\<close> block
  encloses only the call of \<open>tmdb_get\<close>: a JSON response whose \<^verbatim>\<open>results\<close> is a list
  makes \<^verbatim>\<open>results.get\<close> raise, and the exception reaches the caller.
\<close>

theorem get_watch_providers_raises_counterexample:
  "fst (get_watch_providers (stub_env (ok (JObj [(''results'', JList [])]))) 603 ''CH'' initial_state)
     = Inl AttributeError"
  by code_simp

section \<open>Keyword resolution: memoization\<close>












subsection \<open>Where memoization ends\<close>













section \<open>Resolving a mood\<close>

lemma search_keyword_id_other_caches:
  "mood_cache (snd (search_keyword_id env k st)) = mood_cache st"
  "providers_cache (snd (search_keyword_id env k st)) = providers_cache st"
  using tmdb_get_caches(2,3) [of env "''/search/keyword''" "Some [(''query'', JStr k)]" st]
  by (cases "tmdb_get env ''/search/keyword'' (Some [(''query'', JStr k)]) st";
      auto simp: search_keyword_id_def search_keyword_id_wrapped_def split: option.splits sum.splits)+

lemma resolve_loop_mood_cache:
  "mood_cache (snd (resolve_loop env ns acc st)) = mood_cache st"
proof (induction ns arbitrary: acc st)
  case Nil
  then show ?case by simp
next
  case (Cons n ns)
  obtain r s1 where s: "search_keyword_id env n st = (r, s1)"
    by (cases "search_keyword_id env n st")
  with search_keyword_id_other_caches(1) [of env n st] have m: "mood_cache s1 = mood_cache st"
    by simp
  show ?case
  proof (cases r)
    case (Inl e)
    with s m show ?thesis by simp
  next
    case (Inr kid)
    with s m Cons.IH [of "if truthy kid then acc @ [kid] else acc" s1] show ?thesis by simp
  qed
qed

lemma resolve_loop_resolved:
  "reachable env st \<Longrightarrow> resolve_loop env ns acc st = (Inr ids, st')
     \<Longrightarrow> \<exists>vs. list_all2 (resolution env) ns vs \<and> ids = acc @ filter truthy vs"
proof (induction ns arbitrary: acc st)
  case Nil
  then show ?case by simp
next
  case (Cons n ns)
  obtain r s1 where s: "search_keyword_id env n st = (r, s1)"
    by (cases "search_keyword_id env n st")
  with Cons.prems(2) obtain kid where r: "r = Inr kid"
    by (cases r) auto
  from s r Cons.prems(1) have res: "resolution env n kid"
    unfolding resolution_def by (intro exI [of _ st]) simp
  from reachable.search [OF Cons.prems(1), of n] s have reach: "reachable env s1"
    by simp
  from Cons.prems(2) s r
  have "resolve_loop env ns (if truthy kid then acc @ [kid] else acc) s1 = (Inr ids, st')"
    by simp
  from Cons.IH [OF reach this] obtain vs where
    vs: "list_all2 (resolution env) ns vs"
    and ids: "ids = (if truthy kid then acc @ [kid] else acc) @ filter truthy vs"
    by blast
  from res vs have "list_all2 (resolution env) (n # ns) (kid # vs)"
    by simp
  moreover from ids have "ids = acc @ filter truthy (kid # vs)"
    by simp
  ultimately show ?case by blast
qed

lemma lru_hit_subset:
  "lru_hit k c = Some (v, c') \<Longrightarrow> (k, v) \<in> set c \<and> set c' \<subseteq> set c"
  by (auto simp: lru_hit_def split: option.splits dest: map_of_SomeD)

lemma lru_add_subset: "set (lru_add maxsize k v c) \<subseteq> insert (k, v) (set c)"
  by (auto simp: lru_add_def dest: in_set_butlastD)

lemma resolve_mood_cache_step:
  assumes "reachable env st"
    and "\<forall>kv \<in> set (mood_cache st). resolved_from env (MOOD_MAP_get (fst kv)) (snd kv)"
  shows "\<forall>kv \<in> set (mood_cache (snd (resolve_mood_to_keyword_ids env mood st))).
           resolved_from env (MOOD_MAP_get (fst kv)) (snd kv)"
proof (cases "lru_hit mood (mood_cache st)")
  case (Some hit)
  obtain v c' where h: "hit = (v, c')" by (cases hit)
  from Some h lru_hit_subset [of mood "mood_cache st" v c'] have "set c' \<subseteq> set (mood_cache st)"
    by simp
  moreover from Some h have "mood_cache (snd (resolve_mood_to_keyword_ids env mood st)) = c'"
    by (simp add: resolve_mood_to_keyword_ids_def)
  ultimately show ?thesis using assms(2) by auto
next
  case None
  obtain r s1 where w: "resolve_loop env (MOOD_MAP_get mood) [] st = (r, s1)"
    by (cases "resolve_loop env (MOOD_MAP_get mood) [] st")
  with resolve_loop_mood_cache [of env "MOOD_MAP_get mood" "[]" st]
  have m: "mood_cache s1 = mood_cache st" by simp
  show ?thesis
  proof (cases r)
    case (Inl e)
    with None w m have "mood_cache (snd (resolve_mood_to_keyword_ids env mood st)) = mood_cache st"
      by (simp add: resolve_mood_to_keyword_ids_def resolve_mood_to_keyword_ids_wrapped_def)
    with assms(2) show ?thesis by simp
  next
    case (Inr ids)
    with None w m have c: "mood_cache (snd (resolve_mood_to_keyword_ids env mood st))
                             = lru_add 512 mood ids (mood_cache st)"
      by (simp add: resolve_mood_to_keyword_ids_def resolve_mood_to_keyword_ids_wrapped_def)
    from resolve_loop_resolved [OF assms(1), of "MOOD_MAP_get mood" "[]" ids s1] w Inr
    have "resolved_from env (MOOD_MAP_get mood) ids"
      unfolding resolved_from_def by simp
    with assms(2) lru_add_subset [of 512 mood ids "mood_cache st"] show ?thesis
      unfolding c by auto
  qed
qed

lemma discover_movies_mood_cache:
  "mood_cache (snd (discover_movies env ids ra lang reg vc ymin ymax pg sb st)) = mood_cache st"
  by (simp add: discover_movies_def tmdb_get_caches)

lemma get_watch_providers_mood_cache:
  "mood_cache (snd (get_watch_providers env m r st)) = mood_cache st"
  using tmdb_get_caches(2) [of env "''/movie/'' @ str m @ ''/watch/providers''" None st]
  by (cases "tmdb_get env (''/movie/'' @ str m @ ''/watch/providers'') None st")
     (auto simp: get_watch_providers_def get_watch_providers_wrapped_def split: option.splits sum.splits)

lemma mood_cache_resolved:
  "reachable env st \<Longrightarrow>
     \<forall>kv \<in> set (mood_cache st). resolved_from env (MOOD_MAP_get (fst kv)) (snd kv)"
proof (induction rule: reachable.induct)
  case start
  then show ?case by (simp add: initial_state_simps)
next
  case (search st keyword_name)
  then show ?case by (simp add: search_keyword_id_other_caches)
next
  case (resolve st mood)
  then show ?case by (rule resolve_mood_cache_step)
next
  case (discover st keyword_ids require_all language region vote_count_gte year_min year_max page sort_by)
  then show ?case by (simp add: discover_movies_mood_cache)
next
  case (providers st movie_id watch_region)
  then show ?case by (simp add: get_watch_providers_mood_cache)
qed

lemma resolve_mood_resolved:
  assumes "reachable env st" and "resolve_mood_to_keyword_ids env mood st = (Inr ids, st')"
  shows "resolved_from env (MOOD_MAP_get mood) ids"
proof (cases "lru_hit mood (mood_cache st)")
  case (Some hit)
  obtain v c' where h: "hit = (v, c')" by (cases hit)
  from Some h assms(2) have "v = ids"
    by (simp add: resolve_mood_to_keyword_ids_def)
  with Some h lru_hit_subset [of mood "mood_cache st" v c'] have "(mood, ids) \<in> set (mood_cache st)"
    by simp
  with mood_cache_resolved [OF assms(1)] show ?thesis by force
next
  case None
  with assms(2) have "resolve_loop env (MOOD_MAP_get mood) [] st = (Inr ids, snd (resolve_loop env (MOOD_MAP_get mood) [] st))"
    by (cases "resolve_loop env (MOOD_MAP_get mood) [] st")
       (auto simp: resolve_mood_to_keyword_ids_def resolve_mood_to_keyword_ids_wrapped_def split: sum.splits)
  from resolve_loop_resolved [OF assms(1) this] show ?thesis
    unfolding resolved_from_def by simp
qed

text \<open>
  C10. In every state of a run, the list that \<open>resolve_mood_to_keyword_ids\<close> returns for
  a mood, computed now or taken from its cache, is made of one resolution per keyword of
  the mood, in keyword order, without the resolutions that are falsy: so it is no longer
  than the keyword list, all its entries are truthy, and it contains neither \<^verbatim>\<open>None\<close> nor
  the number 0.
\<close>

theorem resolve_mood_ids:
  assumes "reachable env st" and "resolve_mood_to_keyword_ids env mood st = (Inr ids, st')"
  shows "resolved_from env (MOOD_MAP_get mood) ids
       \<and> length ids \<le> length (MOOD_MAP_get mood)
       \<and> list_all truthy ids
       \<and> JNull \<notin> set ids \<and> JInt 0 \<notin> set ids"
proof -
  from resolve_mood_resolved [OF assms] have r: "resolved_from env (MOOD_MAP_get mood) ids" .
  then obtain vs where vs: "list_all2 (resolution env) (MOOD_MAP_get mood) vs"
    and ids: "ids = filter truthy vs"
    unfolding resolved_from_def by blast
  from vs have "length vs = length (MOOD_MAP_get mood)"
    by (simp add: list_all2_lengthD)
  with ids have "length ids \<le> length (MOOD_MAP_get mood)"
    by (metis length_filter_le)
  moreover from ids have t: "list_all truthy ids" by (simp add: list_all_iff)
  moreover from t have "JNull \<notin> set ids" "JInt 0 \<notin> set ids" by (auto simp: list_all_iff)
  ultimately show ?thesis using r by simp
qed



theorem resolve_mood_ids_witness:
  "fst (resolve_mood_to_keyword_ids cozy_env ''Cozy'' initial_state) = Inr [JInt 5, JInt 5]
   \<and> resolved_from cozy_env [''small town'', ''friendship'', ''community'', ''slice of life'']
        [JInt 5, JInt 5]
   \<and> length [JInt 5, JInt 5] \<le> length [''small town'', ''friendship'', ''community'', ''slice of life'']
   \<and> JInt 0 \<notin> set [JInt 5, JInt 5]"
proof -
  have f: "fst (resolve_mood_to_keyword_ids cozy_env ''Cozy'' initial_state) = Inr [JInt 5, JInt 5]"
    by code_simp
  then have h: "resolve_mood_to_keyword_ids cozy_env ''Cozy'' initial_state
                  = (Inr [JInt 5, JInt 5], snd (resolve_mood_to_keyword_ids cozy_env ''Cozy'' initial_state))"
    by (simp add: prod_eq_iff)
  have c: "MOOD_MAP_get ''Cozy'' = [''small town'', ''friendship'', ''community'', ''slice of life'']"
    by (simp add: MOOD_MAP_get_def MOOD_MAP_def)
  from resolve_mood_ids [OF reachable.start h] f show ?thesis
    by (simp add: c)
qed

end
